theory Spec2Isabelle
  imports Complex_Main "HOL-Library.Word" "HOL-Library.Sublist"
    "HOL-Library.Char_ord" "HOL-Library.List_Lexorder"
begin

section \<open>JavaScript strings\<close>

text \<open>
  A JavaScript string is a sequence of UTF-16 code units. The pages only compare
  code units, so a string is a list of 16-bit words; \<open>js\<close> embeds an ASCII literal.
\<close>

type_synonym jschar = "16 word"
type_synonym jsstring = "jschar list"

definition js :: "string \<Rightarrow> jsstring" where
  "js s = map (\<lambda>c. of_nat (of_char c)) s"

text \<open>
  The code units that \<open>String.prototype.trim\<close> strips: the WhiteSpace and
  LineTerminator productions of ECMAScript (TAB, VT, FF, SP, NBSP, ZWNBSP, the
  Unicode space separators, LF, CR, LS, PS).
\<close>

definition isWhiteSpace :: "jschar \<Rightarrow> bool" where
  "isWhiteSpace c =
     (c \<in> set [0x09, 0x0A, 0x0B, 0x0C, 0x0D, 0x20, 0xA0, 0x1680,
               0x2028, 0x2029, 0x202F, 0x205F, 0x3000, 0xFEFF]
      \<or> (0x2000 \<le> c \<and> c \<le> 0x200A))"

definition trim :: "jsstring \<Rightarrow> jsstring" where
  "trim s = rev (dropWhile isWhiteSpace (rev (dropWhile isWhiteSpace s)))"

text \<open>Decimal rendering of a non-negative integer, as a template literal does it.\<close>

fun digits :: "nat \<Rightarrow> string" where
  "digits n =
     (if n < 10 then [''0123456789'' ! n]
      else digits (n div 10) @ [''0123456789'' ! (n mod 10)])"

section \<open>SearchPage.jsx: the search handler\<close>

text \<open>
  The component state of \<open>SearchPage\<close> (its \<open>useState\<close> cells) together with
  the two store values it reads, \<open>userLocation\<close> and \<open>user\<close>. A result row is
  opaque to the handler, which only stores the rows and takes their number.
\<close>

type_synonym js_error = string

record location =
  lat :: real
  lng :: real

record account =
  user_id :: string

record 'r page_state =
  searchQuery :: jsstring
  results :: "'r list"
  loading :: bool
  searched :: bool
  radius :: int
  showFilters :: bool
  selectedResult :: "'r option"
  mapCenter :: "(real \<times> real) option"
  userLocation :: "location option"
  user :: "account option"

text \<open>
  What the handler does to the outside, in the order it does it: the toasts, the
  console line of the \<open>catch\<close> block, and the two calls into \<open>lib/supabase\<close>.
\<close>

datatype event =
    Toast_error string
  | Toast_plain string
  | Toast_success string
  | Console_error string js_error
  | Call_searchMedicines jsstring real real int
  | Call_logSearch string jsstring real real nat

text \<open>
  \<open>searchMedicines\<close> and \<open>logSearch\<close> are imported from \<open>lib/supabase\<close>, which
  is taken as a parameter: each awaited call either rejects (\<open>Inl\<close>, the thrown
  value) or fulfils (\<open>Inr\<close>). The handler ignores the value \<open>logSearch\<close>
  fulfils with.
\<close>

record 'r supabase =
  searchMedicines :: "jsstring \<Rightarrow> real \<Rightarrow> real \<Rightarrow> int \<Rightarrow> js_error + 'r list"
  logSearch :: "string \<Rightarrow> jsstring \<Rightarrow> real \<Rightarrow> real \<Rightarrow> nat \<Rightarrow> js_error + unit"

text \<open>The \<open>catch\<close> block followed by the \<open>finally\<close> block of \<open>handleSearch\<close>.\<close>

definition search_failed :: "'r page_state \<Rightarrow> event list \<Rightarrow> js_error \<Rightarrow> 'r page_state \<times> event list" where
  "search_failed s tr err =
     (s\<lparr>loading := False\<rparr>,
      tr @ [Console_error ''Search error:'' err,
            Toast_error ''Search failed. Please try again.''])"

text \<open>The result toast at the end of the \<open>try\<close> block, followed by \<open>finally\<close>.\<close>

definition search_done :: "'r page_state \<Rightarrow> event list \<Rightarrow> 'r list \<Rightarrow> 'r page_state \<times> event list" where
  "search_done s tr searchResults =
     (s\<lparr>loading := False\<rparr>,
      tr @ [if length searchResults = 0 then Toast_plain ''No medicines found nearby''
            else Toast_success (''Found '' @ digits (length searchResults) @ '' results'')])"

text \<open>
  \<open>handleSearch\<close>: the two guards, each ending the handler with an error toast; the
  three state updates before the \<open>try\<close> block; the awaited fetch, \<open>setResults\<close>, the
  awaited history call under \<open>if (user)\<close>, and the result toast. The call
  \<open>e?.preventDefault()\<close> touches neither the state nor the collaborators, and the icon
  of the plain toast is left out.
\<close>

definition handleSearch :: "'r supabase \<Rightarrow> 'r page_state \<Rightarrow> 'r page_state \<times> event list" where
  "handleSearch db s =
     (if trim (searchQuery s) = [] then
        (s, [Toast_error ''Please enter a medicine name''])
      else case userLocation s of
        None \<Rightarrow> (s, [Toast_error ''Please enable location access''])
      | Some loc \<Rightarrow>
          let s1 = s\<lparr>loading := True, searched := True, selectedResult := None\<rparr>;
              tr1 = [Call_searchMedicines (searchQuery s) (lat loc) (lng loc) (radius s)]
          in case searchMedicines db (searchQuery s) (lat loc) (lng loc) (radius s) of
               Inl err \<Rightarrow> search_failed s1 tr1 err
             | Inr searchResults \<Rightarrow>
                 let s2 = s1\<lparr>results := searchResults\<rparr>
                 in case user s of
                      None \<Rightarrow> search_done s2 tr1 searchResults
                    | Some u \<Rightarrow>
                        let tr2 = tr1 @ [Call_logSearch (user_id u) (searchQuery s)
                                           (lat loc) (lng loc) (length searchResults)]
                        in case logSearch db (user_id u) (searchQuery s)
                                  (lat loc) (lng loc) (length searchResults) of
                             Inl err \<Rightarrow> search_failed s2 tr2 err
                           | Inr _ \<Rightarrow> search_done s2 tr2 searchResults)"

text \<open>Projections of a trace: the calls to the inventory backend and to the history log.\<close>

fun is_search_call :: "event \<Rightarrow> bool" where
  "is_search_call (Call_searchMedicines q la lo r) = True"
| "is_search_call _ = False"

fun is_log_call :: "event \<Rightarrow> bool" where
  "is_log_call (Call_logSearch u q la lo n) = True"
| "is_log_call _ = False"

fun is_toast :: "event \<Rightarrow> bool" where
  "is_toast (Toast_error m) = True"
| "is_toast (Toast_plain m) = True"
| "is_toast (Toast_success m) = True"
| "is_toast _ = False"

text \<open>
  The results section that \<open>SearchPage\<close> renders from its state: the invitation card
  before the first search; after it, the heading and either the \<open>No Medicines Found\<close>
  card or the list of rows.
\<close>

datatype 'r results_view =
    Search_for_medicines
  | No_medicines_found string
  | Results_list string "'r list"

definition results_view :: "'r page_state \<Rightarrow> 'r results_view" where
  "results_view s =
     (if \<not> searched s then Search_for_medicines
      else if length (results s) = 0 then No_medicines_found ''No Results''
      else Results_list (digits (length (results s)) @ '' Results Found'') (results s))"

text \<open>The state of a freshly mounted page, and two fixed collaborators for examples.\<close>

definition initial_state :: "nat page_state" where
  "initial_state =
     \<lparr>searchQuery = [], results = [], loading = False, searched = False, radius = 10,
      showFilters = False, selectedResult = None, mapCenter = None,
      userLocation = None, user = None\<rparr>"

definition here :: location where
  "here = \<lparr>lat = 20.5937, lng = 78.9629\<rparr>"

definition alice :: account where
  "alice = \<lparr>user_id = ''u1''\<rparr>"

definition db_ok :: "nat list \<Rightarrow> nat supabase" where
  "db_ok rows = \<lparr>searchMedicines = (\<lambda>q la lo r. Inr rows),
                 logSearch = (\<lambda>u q la lo n. Inr ())\<rparr>"

definition db_down :: "nat supabase" where
  "db_down = \<lparr>searchMedicines = (\<lambda>q la lo r. Inl ''fetch failed''),
              logSearch = (\<lambda>u q la lo n. Inr ())\<rparr>"

definition db_log_fails :: "nat list \<Rightarrow> nat supabase" where
  "db_log_fails rows = \<lparr>searchMedicines = (\<lambda>q la lo r. Inr rows),
                        logSearch = (\<lambda>u q la lo n. Inl ''insert failed'')\<rparr>"

text \<open>A page ready to search: a query typed in and the location resolved, nobody signed in.\<close>

definition s_q :: "nat page_state" where
  "s_q = initial_state\<lparr>searchQuery := js ''insulin'', userLocation := Some here\<rparr>"

text \<open>
  The run of \<open>handleSearch\<close> reaches the end of its \<open>try\<close> block with the rows
  \<open>rs\<close>: both guards pass, the fetch fulfils with \<open>rs\<close>, and the history call,
  when a user is signed in, fulfils too.
\<close>

definition search_succeeds :: "'r supabase \<Rightarrow> 'r page_state \<Rightarrow> 'r list \<Rightarrow> bool" where
  "search_succeeds db s rs =
     (trim (searchQuery s) \<noteq> [] \<and>
      (case userLocation s of
         None \<Rightarrow> False
       | Some loc \<Rightarrow>
           searchMedicines db (searchQuery s) (lat loc) (lng loc) (radius s) = Inr rs \<and>
           (case user s of
              None \<Rightarrow> True
            | Some u \<Rightarrow> logSearch db (user_id u) (searchQuery s) (lat loc) (lng loc) (length rs)
                         = Inr ())))"

subsection \<open>The location effect run on mount\<close>

text \<open>
  Modelled from the spec: \<open>store/locationStore\<close> (\<open>getUserLocation\<close>,
  \<open>setLocation\<close>) is missing from the sources. The UI resolves the origin from device
  geolocation, falling back to a fixed default coordinate when that fails:
  \<open>setLocation la lo\<close> stores the coordinate, and a fulfilled \<open>getUserLocation\<close>
  stores the device position.
\<close>

definition setLocation :: "real \<Rightarrow> real \<Rightarrow> 'r page_state \<Rightarrow> 'r page_state" where
  "setLocation la lo s = s\<lparr>userLocation := Some \<lparr>lat = la, lng = lo\<rparr>\<rparr>"

text \<open>The first \<open>useEffect\<close> of \<open>SearchPage\<close>; \<open>geo\<close> is the outcome of \<open>getUserLocation()\<close>.\<close>

definition onMount :: "js_error + location \<Rightarrow> 'r page_state \<Rightarrow> 'r page_state" where
  "onMount geo s =
     (case userLocation s of
        Some l \<Rightarrow> s
      | None \<Rightarrow>
          (case geo of
             Inl err \<Rightarrow> setLocation 20.5937 78.9629 s
           | Inr l \<Rightarrow> s\<lparr>userLocation := Some l\<rparr>))"

section \<open>Chatbot.jsx: highlighted medicine names\<close>

definition star :: jschar where
  "star = 0x2A"

text \<open>
  One attempt of the pattern \<open>/\*\*([^*]+)\*\*/\<close> at the start of \<open>s\<close>: two stars, the
  longest run of code units other than a star (at least one), two stars. The run cannot
  be shortened by backtracking, since the unit after a shorter run is not a star. The
  result is the match \<open>m[0]\<close>, the group \<open>m[1]\<close> and the text after the match.
\<close>

definition match_bold :: "jsstring \<Rightarrow> (jsstring \<times> jsstring \<times> jsstring) option" where
  "match_bold s =
     (case s of
        a # b # t \<Rightarrow>
          if a = star \<and> b = star then
            (let m = takeWhile (\<lambda>c. c \<noteq> star) t
             in if m = [] then None
                else case dropWhile (\<lambda>c. c \<noteq> star) t of
                       x # y # rest \<Rightarrow>
                         if x = star \<and> y = star
                         then Some ([star, star] @ m @ [star, star], m, rest)
                         else None
                     | _ \<Rightarrow> None)
          else None
      | _ \<Rightarrow> None)"

lemma match_bold_shorter: "match_bold s = Some (w, m, rest) \<Longrightarrow> length rest < length s"
proof -
  assume a: "match_bold s = Some (w, m, rest)"
  then obtain t where s: "s = star # star # t"
    by (auto simp: match_bold_def split: list.splits if_splits)
  from a s obtain x y where "dropWhile (\<lambda>c. c \<noteq> star) t = x # y # rest"
    by (auto simp: match_bold_def Let_def split: list.splits if_splits)
  then have "length (dropWhile (\<lambda>c. c \<noteq> star) t) = Suc (Suc (length rest))" by simp
  moreover have "length (dropWhile (\<lambda>c. c \<noteq> star) t) \<le> length t" by (rule length_dropWhile_le)
  ultimately show ?thesis using s by simp
qed

text \<open>
  \<open>text.matchAll(boldPattern)\<close> with the \<open>g\<close> flag: the leftmost match at or after the
  current position, then on from the end of that match; the matches as pairs
  \<open>(m[0], m[1])\<close>.
\<close>

function matchAll :: "jsstring \<Rightarrow> (jsstring \<times> jsstring) list" where
  "matchAll [] = []"
| "matchAll (c # cs) =
     (case match_bold (c # cs) of
        Some (w, m, rest) \<Rightarrow> (w, m) # matchAll rest
      | None \<Rightarrow> matchAll cs)"
  by pat_completeness auto
termination
  by (relation "measure length") (auto dest: match_bold_shorter)

definition extractMedicineName :: "jsstring \<Rightarrow> jsstring list" where
  "extractMedicineName text = map (\<lambda>m. snd m) (matchAll text)"

text \<open>
  \<open>handleSend\<close> stores \<open>medicines.length > 0 ? medicines : null\<close> in the bot message,
  and the message bubble renders one quick-search button for each entry of
  \<open>msg.medicines.slice(0, 3)\<close> when the field is set and not empty.
\<close>

definition message_medicines :: "jsstring \<Rightarrow> jsstring list option" where
  "message_medicines botResponse =
     (let medicines = extractMedicineName botResponse
      in if length medicines > 0 then Some medicines else None)"

definition quick_search_buttons :: "jsstring list option \<Rightarrow> jsstring list" where
  "quick_search_buttons medicines =
     (case medicines of
        None \<Rightarrow> []
      | Some ms \<Rightarrow> if length ms > 0 then take 3 ms else [])"

text \<open>
  A text written as gaps and marked names: each pair is the text before a name and the
  name, set between two pairs of stars; \<open>tail\<close> is what follows the last name.
\<close>

fun marked :: "(jsstring \<times> jsstring) list \<Rightarrow> jsstring \<Rightarrow> jsstring" where
  "marked [] tail = tail"
| "marked ((gap, name) # xs) tail =
     gap @ [star, star] @ name @ [star, star] @ marked xs tail"

text \<open>
  A marked name begins at the head of \<open>s\<close>: two stars, a name that is not empty and
  holds no star, two stars.
\<close>

definition begins_marked :: "jsstring \<Rightarrow> bool" where
  "begins_marked s =
     (\<exists>name \<in> set (prefixes (drop 2 s)).
        name \<noteq> [] \<and> star \<notin> set name \<and> prefix ([star, star] @ name @ [star, star]) s)"

text \<open>
  The leftmost reading of a text as gaps and marked names: every name is well formed, no
  marked name begins inside a gap (each name is the first to begin after the one before
  it ends), and none begins in the tail.
\<close>

fun leftmost :: "(jsstring \<times> jsstring) list \<Rightarrow> jsstring \<Rightarrow> bool" where
  "leftmost [] tail = (\<forall>b \<in> set (suffixes tail). \<not> begins_marked b)"
| "leftmost ((gap, name) # xs) tail =
     (name \<noteq> [] \<and> star \<notin> set name
      \<and> (\<forall>b \<in> set (suffixes gap).
            b \<noteq> [] \<longrightarrow> \<not> begins_marked (b @ [star, star] @ name @ [star, star] @ marked xs tail))
      \<and> leftmost xs tail)"

text \<open>
  A reply of the assistant with a bullet star, an italic word and four highlighted
  names, one of them twice.
\<close>

definition chat :: jsstring where
  "chat = js ''* **Dolo** or *a* **Advil**, **Dolo**, **Zyx**.''"

definition chat_gaps :: "jsstring list" where
  "chat_gaps = [js ''* '', js '' or *a* '', js '', '', js '', '']"

definition chat_names :: "jsstring list" where
  "chat_names = [js ''Dolo'', js ''Advil'', js ''Dolo'', js ''Zyx'']"

section \<open>FavoritesPage.jsx: removing a favorite\<close>

text \<open>
  A row of the \<open>favorites\<close> query: its id, its creation time and the joined store,
  which the handler does not look into.
\<close>

record 's favorite =
  fav_id :: string
  created_at :: string
  stores :: 's

text \<open>The \<open>catch\<close> block of \<open>removeFavorite\<close>: the state is not written.\<close>

definition remove_failed :: "'s favorite list \<Rightarrow> js_error \<Rightarrow> 's favorite list \<times> event list" where
  "remove_failed current error =
     (current,
      [Console_error ''Error removing favorite:'' error, Toast_error ''Failed to remove''])"

text \<open>The success path: \<open>setFavorites\<close> with the filtered list, and the toast.\<close>

definition remove_done :: "string \<Rightarrow> 's favorite list \<Rightarrow> 's favorite list \<times> event list" where
  "remove_done favoriteId favorites =
     (filter (\<lambda>f. fav_id f \<noteq> favoriteId) favorites,
      [Toast_success ''Removed from favorites''])"

text \<open>
  \<open>removeFavorite\<close>. \<open>favorites\<close> is the list of the render in which the handler was
  created, which the closure keeps across the \<open>await\<close>; \<open>current\<close> is the state of
  the page when the awaited delete settles. The delete either rejects (\<open>Inl\<close>) or
  fulfils with an object whose \<open>error\<close> field is thrown when truthy: null is falsy, and
  so is the empty string, the one falsy value of the type that stands for errors here.
  Both failures end in the \<open>catch\<close> block. On success \<open>setFavorites\<close> replaces the
  state by the filtered list of the render. The result is the new state and the
  notifications made.
\<close>

definition removeFavorite ::
  "(string \<Rightarrow> js_error + js_error option) \<Rightarrow> string \<Rightarrow> 's favorite list
     \<Rightarrow> 's favorite list \<Rightarrow> 's favorite list \<times> event list" where
  "removeFavorite delete favoriteId favorites current =
     (case delete favoriteId of
        Inl thrown \<Rightarrow> remove_failed current thrown
      | Inr None \<Rightarrow> remove_done favoriteId favorites
      | Inr (Some error) \<Rightarrow>
          if error \<noteq> [] then remove_failed current error
          else remove_done favoriteId favorites)"

text \<open>
  Two removals started from the same render, the second clicked before the first has
  settled: both handlers hold the list of that render, and the awaited deletes settle one
  after the other.
\<close>

definition remove_two ::
  "(string \<Rightarrow> js_error + js_error option) \<Rightarrow> string \<Rightarrow> string \<Rightarrow> 's favorite list
     \<Rightarrow> 's favorite list" where
  "remove_two delete id1 id2 rendered =
     (let after1 = fst (removeFavorite delete id1 rendered rendered)
      in fst (removeFavorite delete id2 rendered after1))"

text \<open>Three saved stores, for examples.\<close>

definition fav :: "string \<Rightarrow> unit favorite" where
  "fav i = \<lparr>fav_id = i, created_at = ''2024-01-01'', stores = ()\<rparr>"

definition saved :: "unit favorite list" where
  "saved = [fav ''f1'', fav ''f2'', fav ''f3'']"

section \<open>The search ranker\<close>

text \<open>
  Modelled from the spec: the data model of section 3 (Coordinate, MedicineRecord,
  StoreRecord, SearchResult). The rows are built in \<open>lib/supabase\<close>, which is missing from
  the sources; a price is a decimal, a distance a real number of kilometres.
\<close>

record coordinate =
  latitude :: real
  longitude :: real

record medicine_record =
  medicine_id :: string
  medicine_name :: string
  generic_name :: "string option"
  price :: rat
  quantity :: nat
  image_url :: "string option"
  medicine_store_id :: string

record store_record =
  store_id :: string
  store_name :: string
  address :: string
  store_latitude :: real
  store_longitude :: real
  phone :: string
  is_open :: bool

record search_result =
  medicine :: medicine_record
  store :: store_record
  distance_km :: real

text \<open>
  Modelled from the spec: the coordinate of a store, from its latitude and longitude.
\<close>

definition store_coordinate :: "store_record \<Rightarrow> coordinate" where
  "store_coordinate st = \<lparr>latitude = store_latitude st, longitude = store_longitude st\<rparr>"

text \<open>
  Modelled from the spec: step 1 of \<open>SearchRanker.rank\<close>, the distance of each candidate
  from the origin. \<open>GeoMath.distanceKm\<close> (the haversine formula) is a parameter.
\<close>

definition annotate ::
  "(coordinate \<Rightarrow> coordinate \<Rightarrow> real) \<Rightarrow> coordinate \<Rightarrow> medicine_record \<times> store_record \<Rightarrow> search_result" where
  "annotate distanceKm origin c =
     \<lparr>medicine = fst c, store = snd c,
      distance_km = distanceKm origin (store_coordinate (snd c))\<rparr>"

text \<open>
  Modelled from the spec: step 2, discard the candidates where \<open>distance_km > radiusKm\<close>.
\<close>

definition within_radius :: "real \<Rightarrow> search_result list \<Rightarrow> search_result list" where
  "within_radius radiusKm rs = filter (\<lambda>r. \<not> distance_km r > radiusKm) rs"

text \<open>
  Modelled from the spec: the pair \<open>(store_id, medicine_id)\<close> that step 3 deduplicates by.
\<close>

definition result_key :: "search_result \<Rightarrow> string \<times> string" where
  "result_key r = (store_id (store r), medicine_id (medicine r))"

text \<open>
  Modelled from the spec: step 3 for one result; on a conflict the lower price is kept,
  the first seen when the prices tie.
\<close>

fun dedup_insert :: "search_result \<Rightarrow> search_result list \<Rightarrow> search_result list" where
  "dedup_insert r [] = [r]"
| "dedup_insert r (x # xs) =
     (if result_key x = result_key r
      then (if price (medicine r) < price (medicine x) then r # xs else x # xs)
      else x # dedup_insert r xs)"

text \<open>
  Modelled from the spec: step 3, deduplication of the whole list, in order of arrival.
\<close>

definition deduplicate :: "search_result list \<Rightarrow> search_result list" where
  "deduplicate rs = foldl (\<lambda>kept r. dedup_insert r kept) [] rs"

text \<open>
  Modelled from the spec: the order of step 4, ascending distance, ties broken by
  ascending price, then by store name (lexicographic).
\<close>

definition ranks_before :: "search_result \<Rightarrow> search_result \<Rightarrow> bool" where
  "ranks_before a b =
     (distance_km a < distance_km b
      \<or> (distance_km a = distance_km b
          \<and> (price (medicine a) < price (medicine b)
              \<or> (price (medicine a) = price (medicine b)
                  \<and> store_name (store a) \<le> store_name (store b)))))"

text \<open>
  Modelled from the spec: step 4 for one result, insertion into a ranked list.
\<close>

fun insert_ranked :: "search_result \<Rightarrow> search_result list \<Rightarrow> search_result list" where
  "insert_ranked r [] = [r]"
| "insert_ranked r (x # xs) =
     (if ranks_before r x then r # x # xs else x # insert_ranked r xs)"

text \<open>
  Modelled from the spec: step 4, the sort.
\<close>

definition sort_ranked :: "search_result list \<Rightarrow> search_result list" where
  "sort_ranked rs = foldr insert_ranked rs []"

text \<open>
  Modelled from the spec: step 5, truncation to the first \<open>limit\<close> entries when a limit is set.
\<close>

definition truncate_to :: "nat option \<Rightarrow> search_result list \<Rightarrow> search_result list" where
  "truncate_to limit rs = (case limit of None \<Rightarrow> rs | Some n \<Rightarrow> take n rs)"

text \<open>
  Modelled from the spec: \<open>SearchRanker.rank\<close>, the five steps in order.
\<close>

definition rank ::
  "(coordinate \<Rightarrow> coordinate \<Rightarrow> real) \<Rightarrow> (medicine_record \<times> store_record) list
     \<Rightarrow> coordinate \<Rightarrow> real \<Rightarrow> nat option \<Rightarrow> search_result list" where
  "rank distanceKm candidates origin radiusKm limit =
     truncate_to limit
       (sort_ranked
          (deduplicate
             (within_radius radiusKm (map (annotate distanceKm origin) candidates))))"

text \<open>
  Examples: a flat stand-in for the distance (100 km for each degree of latitude), an
  origin, and listings of one medicine in several stores.
\<close>

definition flat_km :: "coordinate \<Rightarrow> coordinate \<Rightarrow> real" where
  "flat_km a b = 100 * \<bar>latitude b - latitude a\<bar>"

definition origin0 :: coordinate where
  "origin0 = \<lparr>latitude = 0, longitude = 0\<rparr>"

definition med :: "string \<Rightarrow> rat \<Rightarrow> string \<Rightarrow> medicine_record" where
  "med i p sid = \<lparr>medicine_id = i, medicine_name = ''Insulin'', generic_name = None, price = p,
                  quantity = 5, image_url = None, medicine_store_id = sid\<rparr>"

definition shop :: "string \<Rightarrow> string \<Rightarrow> real \<Rightarrow> store_record" where
  "shop sid n la = \<lparr>store_id = sid, store_name = n, address = ''Main Road'', store_latitude = la,
                    store_longitude = 0, phone = ''000'', is_open = True\<rparr>"

definition listing :: "string \<Rightarrow> rat \<Rightarrow> string \<Rightarrow> string \<Rightarrow> real \<Rightarrow> medicine_record \<times> store_record" where
  "listing i p sid n la = (med i p sid, shop sid n la)"

definition hit :: "string \<Rightarrow> rat \<Rightarrow> string \<Rightarrow> string \<Rightarrow> real \<Rightarrow> search_result" where
  "hit i p sid n la = \<lparr>medicine = med i p sid, store = shop sid n la, distance_km = 100 * la\<rparr>"

definition shelf :: "(medicine_record \<times> store_record) list" where
  "shelf = [listing ''m1'' 30 ''s1'' ''MedPlus'' (2/100), listing ''m1'' 30 ''s2'' ''Apollo'' (2/100),
            listing ''m1'' 25 ''s3'' ''City'' (2/100), listing ''m1'' 90 ''s4'' ''Near'' (1/100)]"



section \<open>Properties of the search handler\<close>

lemma dropWhile_all_iff: "(\<forall>x \<in> set (dropWhile P xs). P x) \<longleftrightarrow> (\<forall>x \<in> set xs. P x)"
proof
  assume a: "\<forall>x \<in> set (dropWhile P xs). P x"
  have "dropWhile P xs = []"
  proof (rule ccontr)
    assume n: "dropWhile P xs \<noteq> []"
    then have "\<not> P (hd (dropWhile P xs))" by (rule hd_dropWhile)
    moreover have "hd (dropWhile P xs) \<in> set (dropWhile P xs)" using n by simp
    ultimately show False using a by blast
  qed
  then show "\<forall>x \<in> set xs. P x" by (simp add: dropWhile_eq_Nil_conv)
next
  assume "\<forall>x \<in> set xs. P x"
  then show "\<forall>x \<in> set (dropWhile P xs). P x" by (meson set_dropWhileD)
qed

lemma trim_empty_iff: "trim s = [] \<longleftrightarrow> (\<forall>c \<in> set s. isWhiteSpace c)"
  by (simp add: trim_def dropWhile_eq_Nil_conv dropWhile_all_iff)

lemmas example_defs = s_q_def initial_state_def db_ok_def db_down_def db_log_fails_def
  here_def alice_def

lemma trim_insulin: "trim (js ''insulin'') \<noteq> []"
  by (simp add: trim_empty_iff js_def isWhiteSpace_def)

text \<open>The toast a run of the handler shows, path by path; every run shows exactly one.\<close>

lemma handleSearch_toasts:
  "filter is_toast (snd (handleSearch db s)) =
     (if trim (searchQuery s) = [] then [Toast_error ''Please enter a medicine name'']
      else case userLocation s of
        None \<Rightarrow> [Toast_error ''Please enable location access'']
      | Some loc \<Rightarrow>
         (case searchMedicines db (searchQuery s) (lat loc) (lng loc) (radius s) of
            Inl err \<Rightarrow> [Toast_error ''Search failed. Please try again.'']
          | Inr rs \<Rightarrow>
             (case user s of
                None \<Rightarrow> [if length rs = 0 then Toast_plain ''No medicines found nearby''
                    else Toast_success (''Found '' @ digits (length rs) @ '' results'')]
              | Some u \<Rightarrow>
                 (case logSearch db (user_id u) (searchQuery s) (lat loc) (lng loc) (length rs) of
                    Inl err \<Rightarrow> [Toast_error ''Search failed. Please try again.'']
                  | Inr x \<Rightarrow> [if length rs = 0 then Toast_plain ''No medicines found nearby''
                    else Toast_success (''Found '' @ digits (length rs) @ '' results'')]))))"
  by (simp add: handleSearch_def search_done_def search_failed_def Let_def
      split: option.splits sum.splits)

text \<open>The handler never writes the location.\<close>

lemma handleSearch_keeps_location: "userLocation (fst (handleSearch db s)) = userLocation s"
  by (simp add: handleSearch_def search_done_def search_failed_def Let_def
      split: option.splits sum.splits)

text \<open>
  The default coordinate comes from the mount effect of the page, when device
  geolocation fails.
\<close>

lemma onMount_default:
  "userLocation s = None \<Longrightarrow>
   userLocation (onMount (Inl err) s) = Some \<lparr>lat = 20.5937, lng = 78.9629\<rparr>"
  by (simp add: onMount_def setLocation_def)

text \<open>
  The component state keeps no error field: from a page with no rows, a failed fetch and
  a fetch of zero rows leave the same state, and only the toast tells them apart.
\<close>

lemma failed_state_like_no_results:
  "fst (handleSearch db_down s_q) = fst (handleSearch (db_ok []) s_q)"
  using trim_insulin
  by (simp add: handleSearch_def search_done_def search_failed_def example_defs)

text \<open>
  C1, as stated, fails: with a signed-in user, a history write that rejects after a
  successful fetch of two rows puts the search-failure toast in place of the result toast.
\<close>

theorem history_failure_surfaced_counterexample:
  "searchMedicines (db_log_fails [7, 8]) (js ''insulin'') 20.5937 78.9629 10 = Inr [7, 8]
   \<and> logSearch (db_log_fails [7, 8]) ''u1'' (js ''insulin'') 20.5937 78.9629 2 = Inl ''insert failed''
   \<and> Toast_error ''Search failed. Please try again.''
       \<in> set (snd (handleSearch (db_log_fails [7, 8]) (s_q\<lparr>user := Some alice\<rparr>)))
   \<and> Toast_success ''Found 2 results''
       \<notin> set (snd (handleSearch (db_log_fails [7, 8]) (s_q\<lparr>user := Some alice\<rparr>)))"
  using trim_insulin
  by (simp add: handleSearch_def search_failed_def example_defs)

text \<open>
  C1, amended. When the history write rejects after a successful fetch, the fetched rows
  are still stored as the results of the page and the loading flag is reset; the handler
  awaited the call inside its \<open>try\<close> block, so the failure is logged to the console and
  shown to the user as the search-failure toast.
\<close>

theorem handleSearch_log_rejects:
  assumes "trim (searchQuery s) \<noteq> []"
    and "userLocation s = Some loc"
    and "searchMedicines db (searchQuery s) (lat loc) (lng loc) (radius s) = Inr rs"
    and "user s = Some u"
    and "logSearch db (user_id u) (searchQuery s) (lat loc) (lng loc) (length rs) = Inl err"
  shows "results (fst (handleSearch db s)) = rs
       \<and> loading (fst (handleSearch db s)) = False
       \<and> snd (handleSearch db s) =
           [Call_searchMedicines (searchQuery s) (lat loc) (lng loc) (radius s),
            Call_logSearch (user_id u) (searchQuery s) (lat loc) (lng loc) (length rs),
            Console_error ''Search error:'' err,
            Toast_error ''Search failed. Please try again.'']"
  using assms by (simp add: handleSearch_def search_failed_def)

theorem handleSearch_log_rejects_witness:
  "results (fst (handleSearch (db_log_fails [7, 8]) (s_q\<lparr>user := Some alice\<rparr>))) = [7, 8]
   \<and> snd (handleSearch (db_log_fails [7, 8]) (s_q\<lparr>user := Some alice\<rparr>)) =
       [Call_searchMedicines (js ''insulin'') 20.5937 78.9629 10,
        Call_logSearch ''u1'' (js ''insulin'') 20.5937 78.9629 2,
        Console_error ''Search error:'' ''insert failed'',
        Toast_error ''Search failed. Please try again.'']"
  using handleSearch_log_rejects [of "s_q\<lparr>user := Some alice\<rparr>" here "db_log_fails [7, 8]"
      "[7, 8]" alice "''insert failed''"]
    trim_insulin
  by (simp add: example_defs)

text \<open>
  C2, as stated, fails: with nobody signed in, a successful search of two rows makes no
  history call.
\<close>

theorem history_without_user_counterexample:
  "search_succeeds (db_ok [7, 8]) s_q [7, 8]
   \<and> user s_q = None
   \<and> snd (handleSearch (db_ok [7, 8]) s_q) =
       [Call_searchMedicines (js ''insulin'') 20.5937 78.9629 10,
        Toast_success ''Found 2 results'']
   \<and> filter is_log_call (snd (handleSearch (db_ok [7, 8]) s_q)) = []"
  using trim_insulin
  by (simp add: handleSearch_def search_done_def search_succeeds_def example_defs)

text \<open>
  C2, amended. After every successful fetch, zero rows included, the handler calls
  \<open>logSearch\<close> exactly once, with the user id, the query text, the origin and the
  number of rows, when a user is signed in, and makes no history call when none is.
\<close>

theorem handleSearch_logs_for_user:
  assumes "trim (searchQuery s) \<noteq> []"
    and "userLocation s = Some loc"
    and "searchMedicines db (searchQuery s) (lat loc) (lng loc) (radius s) = Inr rs"
  shows "filter is_log_call (snd (handleSearch db s)) =
           (case user s of
              None \<Rightarrow> []
            | Some u \<Rightarrow> [Call_logSearch (user_id u) (searchQuery s) (lat loc) (lng loc) (length rs)])"
  using assms
  by (simp add: handleSearch_def search_done_def search_failed_def Let_def
      split: option.splits sum.splits)

theorem handleSearch_logs_for_user_witness:
  "filter is_log_call (snd (handleSearch (db_ok []) (s_q\<lparr>user := Some alice\<rparr>))) =
     [Call_logSearch ''u1'' (js ''insulin'') 20.5937 78.9629 0]"
  using handleSearch_logs_for_user [of "s_q\<lparr>user := Some alice\<rparr>" here "db_ok []" "[]"]
    trim_insulin
  by (simp add: example_defs)

text \<open>
  C3. A search whose query text is empty or consists of white space only ends with
  the error toast asking for a medicine name; no call to the backend is made and the
  page state, the results included, stays as it was.
\<close>

theorem handleSearch_blank_query:
  assumes "\<forall>c \<in> set (searchQuery s). isWhiteSpace c"
  shows "handleSearch db s = (s, [Toast_error ''Please enter a medicine name''])
       \<and> results (fst (handleSearch db s)) = results s
       \<and> filter is_search_call (snd (handleSearch db s)) = []
       \<and> filter is_log_call (snd (handleSearch db s)) = []"
  using assms by (simp add: handleSearch_def trim_empty_iff)

theorem handleSearch_blank_query_witness:
  "handleSearch (db_ok [1, 2]) (initial_state\<lparr>searchQuery := js ''  '', userLocation := Some here\<rparr>)
     = (initial_state\<lparr>searchQuery := js ''  '', userLocation := Some here\<rparr>,
        [Toast_error ''Please enter a medicine name''])"
proof -
  have h: "\<forall>c \<in> set (searchQuery (initial_state\<lparr>searchQuery := js ''  '', userLocation := Some here\<rparr>)).
      isWhiteSpace c"
    by (simp add: js_def isWhiteSpace_def)
  show ?thesis
    using handleSearch_blank_query [OF h, of "db_ok [1, 2]"] by simp
qed

text \<open>
  C4. When the candidate fetch throws, the handler logs the error and shows the
  search-failure toast; the backend was called exactly once (no retry), the history log
  is never called, and the results of the page are left as they were.
\<close>

theorem handleSearch_backend_throws:
  assumes "trim (searchQuery s) \<noteq> []"
    and "userLocation s = Some loc"
    and "searchMedicines db (searchQuery s) (lat loc) (lng loc) (radius s) = Inl err"
  shows "snd (handleSearch db s) =
           [Call_searchMedicines (searchQuery s) (lat loc) (lng loc) (radius s),
            Console_error ''Search error:'' err,
            Toast_error ''Search failed. Please try again.'']
       \<and> length (filter is_search_call (snd (handleSearch db s))) = 1
       \<and> filter is_log_call (snd (handleSearch db s)) = []
       \<and> fst (handleSearch db s) = s\<lparr>loading := False, searched := True, selectedResult := None\<rparr>"
  using assms by (simp add: handleSearch_def search_failed_def)

theorem handleSearch_backend_throws_witness:
  "snd (handleSearch db_down (s_q\<lparr>user := Some alice\<rparr>)) =
     [Call_searchMedicines (js ''insulin'') 20.5937 78.9629 10,
      Console_error ''Search error:'' ''fetch failed'',
      Toast_error ''Search failed. Please try again.'']
   \<and> filter is_log_call (snd (handleSearch db_down (s_q\<lparr>user := Some alice\<rparr>))) = []"
  using handleSearch_backend_throws [of "s_q\<lparr>user := Some alice\<rparr>" here db_down "''fetch failed''"]
    trim_insulin
  by (simp add: example_defs)

text \<open>
  C5, as stated, fails: the page keeps no error state. From a page with no rows, a failed
  fetch leaves the same state as a search that returned zero rows, and the page renders
  the \<open>No Medicines Found\<close> card in both; and a search that fetched zero rows but whose
  history write rejected shows the very toast, and leaves the very state, of a failed
  fetch.
\<close>

theorem failed_search_state_counterexample:
  "fst (handleSearch db_down s_q) = fst (handleSearch (db_ok []) s_q)
   \<and> results_view (fst (handleSearch db_down s_q)) = No_medicines_found ''No Results''
   \<and> results_view (fst (handleSearch (db_ok []) s_q)) = No_medicines_found ''No Results''
   \<and> searchMedicines (db_log_fails []) (js ''insulin'') 20.5937 78.9629 10 = Inr []
   \<and> filter is_toast (snd (handleSearch (db_log_fails []) (s_q\<lparr>user := Some alice\<rparr>)))
       = filter is_toast (snd (handleSearch db_down (s_q\<lparr>user := Some alice\<rparr>)))
   \<and> fst (handleSearch (db_log_fails []) (s_q\<lparr>user := Some alice\<rparr>))
       = fst (handleSearch db_down (s_q\<lparr>user := Some alice\<rparr>))"
  using trim_insulin
  by (simp add: handleSearch_def search_done_def search_failed_def results_view_def
      example_defs)

text \<open>
  C5, amended. A search whose fetch fails is reported by the error toast
  \<open>Search failed. Please try again.\<close>, and a search that fetches zero rows and whose
  history write, if one is made, fulfils by the plain toast
  \<open>No medicines found nearby\<close>: the two are told apart by the toast alone.
  The failed search leaves the rows of the page as they were and sets no error state, so
  from a page with no rows both end in the same state and the same
  \<open>No Medicines Found\<close> card.
\<close>

theorem failure_told_apart_by_toast_only:
  assumes "trim (searchQuery s) \<noteq> []"
    and "userLocation s = Some loc"
    and "searchMedicines db (searchQuery s) (lat loc) (lng loc) (radius s) = Inl err"
    and "searchMedicines db' (searchQuery s) (lat loc) (lng loc) (radius s) = Inr []"
    and "case user s of None \<Rightarrow> True
         | Some u \<Rightarrow> logSearch db' (user_id u) (searchQuery s) (lat loc) (lng loc) 0 = Inr ()"
  shows "filter is_toast (snd (handleSearch db s)) = [Toast_error ''Search failed. Please try again.'']
       \<and> filter is_toast (snd (handleSearch db' s)) = [Toast_plain ''No medicines found nearby'']
       \<and> fst (handleSearch db s) = s\<lparr>loading := False, searched := True, selectedResult := None\<rparr>
       \<and> fst (handleSearch db' s)
           = s\<lparr>loading := False, searched := True, selectedResult := None, results := []\<rparr>
       \<and> results_view (fst (handleSearch db' s)) = No_medicines_found ''No Results''
       \<and> (results s = [] \<longrightarrow>
             fst (handleSearch db s) = fst (handleSearch db' s)
             \<and> results_view (fst (handleSearch db s)) = No_medicines_found ''No Results'')"
proof -
  have a: "filter is_toast (snd (handleSearch db s)) = [Toast_error ''Search failed. Please try again.'']"
    and b: "fst (handleSearch db s) = s\<lparr>loading := False, searched := True, selectedResult := None\<rparr>"
    using assms(1-3) by (simp_all add: handleSearch_def search_failed_def)
  have c: "filter is_toast (snd (handleSearch db' s)) = [Toast_plain ''No medicines found nearby'']"
    and d: "fst (handleSearch db' s)
           = s\<lparr>loading := False, searched := True, selectedResult := None, results := []\<rparr>"
    using assms(1,2,4,5)
    by (simp_all add: handleSearch_def search_done_def Let_def split: option.splits)
  have e: "results_view (fst (handleSearch db' s)) = No_medicines_found ''No Results''"
    unfolding d by (simp add: results_view_def)
  have f: "results s = [] \<longrightarrow>
             fst (handleSearch db s) = fst (handleSearch db' s)
             \<and> results_view (fst (handleSearch db s)) = No_medicines_found ''No Results''"
    unfolding b d by (simp add: results_view_def)
  from a b c d e f show ?thesis by simp
qed

theorem failure_told_apart_by_toast_only_witness:
  "filter is_toast (snd (handleSearch db_down s_q)) = [Toast_error ''Search failed. Please try again.'']
   \<and> filter is_toast (snd (handleSearch (db_ok []) s_q)) = [Toast_plain ''No medicines found nearby'']
   \<and> results_view (fst (handleSearch db_down s_q)) = No_medicines_found ''No Results''
   \<and> results_view (fst (handleSearch (db_ok []) s_q)) = No_medicines_found ''No Results''"
proof -
  have h: "trim (searchQuery s_q) \<noteq> []" "userLocation s_q = Some here"
    "searchMedicines db_down (searchQuery s_q) (lat here) (lng here) (radius s_q) = Inl ''fetch failed''"
    "searchMedicines (db_ok []) (searchQuery s_q) (lat here) (lng here) (radius s_q) = Inr []"
    "case user s_q of None \<Rightarrow> True
     | Some u \<Rightarrow> logSearch (db_ok []) (user_id u) (searchQuery s_q) (lat here) (lng here) 0 = Inr ()"
    "results s_q = []"
    using trim_insulin by (simp_all add: s_q_def initial_state_def db_ok_def db_down_def)
  from failure_told_apart_by_toast_only [OF h(1-5)] h(6) show ?thesis by blast
qed

text \<open>
  C6, as stated, fails: on a page with no location and an empty query, the handler
  reports the missing query, not the missing location.
\<close>

theorem missing_location_counterexample:
  "userLocation initial_state = None
   \<and> handleSearch (db_ok [7, 8]) initial_state
       = (initial_state, [Toast_error ''Please enter a medicine name''])"
  by (simp add: handleSearch_def trim_def example_defs)

text \<open>
  C6, amended. A search with no location makes no backend call and leaves the state,
  the location included, as it was; when the query text is not blank, its only effect is
  the error toast asking for location access.
\<close>

theorem handleSearch_missing_location:
  assumes "userLocation s = None"
  shows "(trim (searchQuery s) \<noteq> [] \<longrightarrow>
            handleSearch db s = (s, [Toast_error ''Please enable location access'']))
       \<and> fst (handleSearch db s) = s
       \<and> filter is_search_call (snd (handleSearch db s)) = []
       \<and> filter is_log_call (snd (handleSearch db s)) = []"
  using assms by (simp add: handleSearch_def)

theorem handleSearch_missing_location_witness:
  "handleSearch (db_ok [7, 8]) (s_q\<lparr>userLocation := None\<rparr>)
     = (s_q\<lparr>userLocation := None\<rparr>, [Toast_error ''Please enable location access''])"
  using handleSearch_missing_location [of "s_q\<lparr>userLocation := None\<rparr>" "db_ok [7, 8]"]
    trim_insulin
  by (simp add: example_defs)

section \<open>Properties of the ranker\<close>

lemma ranks_before_total: "ranks_before a b \<or> ranks_before b a"
  unfolding ranks_before_def by (auto simp: not_less not_le)

lemma ranks_before_trans: "ranks_before a b \<Longrightarrow> ranks_before b c \<Longrightarrow> ranks_before a c"
  unfolding ranks_before_def
  by (elim disjE conjE) (auto intro: order_trans)

lemma set_insert_ranked: "set (insert_ranked r xs) = insert r (set xs)"
  by (induction xs) auto

lemma sorted_insert_ranked:
  "sorted_wrt ranks_before xs \<Longrightarrow> sorted_wrt ranks_before (insert_ranked r xs)"
proof (induction xs)
  case Nil
  then show ?case by simp
next
  case (Cons x xs)
  show ?case
  proof (cases "ranks_before r x")
    case True
    with Cons.prems show ?thesis by (auto intro: ranks_before_trans)
  next
    case False
    then have "ranks_before x r" using ranks_before_total by blast
    with Cons False show ?thesis by (auto simp: set_insert_ranked)
  qed
qed


lemma sorted_sort_ranked: "sorted_wrt ranks_before (sort_ranked rs)"
  unfolding sort_ranked_def by (induction rs) (auto intro: sorted_insert_ranked)

lemma sorted_truncate_to:
  "sorted_wrt ranks_before rs \<Longrightarrow> sorted_wrt ranks_before (truncate_to limit rs)"
  by (cases limit) (auto simp: truncate_to_def sorted_wrt_take)

lemma sorted_rank: "sorted_wrt ranks_before (rank d cs origin radiusKm limit)"
  unfolding rank_def by (intro sorted_truncate_to sorted_sort_ranked)










lemmas rank_example_defs = flat_km_def origin0_def med_def shop_def listing_def hit_def
  store_coordinate_def annotate_def within_radius_def result_key_def deduplicate_def
  ranks_before_def sort_ranked_def truncate_to_def rank_def

lemma rank_example:
  "rank flat_km shelf origin0 50 None
   = [hit ''m1'' 90 ''s4'' ''Near'' (1/100), hit ''m1'' 25 ''s3'' ''City'' (2/100),
      hit ''m1'' 30 ''s2'' ''Apollo'' (2/100), hit ''m1'' 30 ''s1'' ''MedPlus'' (2/100)]"
  by (simp add: shelf_def rank_example_defs)




text \<open>
  C7. Every list returned by \<open>rank\<close> is in non-decreasing order of distance; entries at
  the same distance are in ascending order of price, and entries at the same distance
  and price in lexicographic order of store name.
\<close>

theorem rank_sorted:
  fixes distanceKm candidates origin radiusKm limit
  defines "rs \<equiv> rank distanceKm candidates origin radiusKm limit"
  assumes "i < j" and "j < length rs"
  shows "distance_km (rs ! i) \<le> distance_km (rs ! j)
       \<and> (distance_km (rs ! i) = distance_km (rs ! j) \<longrightarrow>
            price (medicine (rs ! i)) \<le> price (medicine (rs ! j))
            \<and> (price (medicine (rs ! i)) = price (medicine (rs ! j)) \<longrightarrow>
                 store_name (store (rs ! i)) \<le> store_name (store (rs ! j))))"
proof -
  have "sorted_wrt ranks_before rs" unfolding rs_def by (rule sorted_rank)
  with assms(2,3) have "ranks_before (rs ! i) (rs ! j)"
    by (simp add: sorted_wrt_iff_nth_less)
  then show ?thesis unfolding ranks_before_def by auto
qed

theorem rank_sorted_witness:
  "map (\<lambda>r. (distance_km r, price (medicine r), store_name (store r)))
     (rank flat_km shelf origin0 50 None)
   = [(1, 90, ''Near''), (2, 25, ''City''), (2, 30, ''Apollo''), (2, 30, ''MedPlus'')]
   \<and> store_name (store (rank flat_km shelf origin0 50 None ! 2))
       \<le> store_name (store (rank flat_km shelf origin0 50 None ! 3))"
proof -
  have l: "3 < length (rank flat_km shelf origin0 50 None)" by (simp add: rank_example)
  have e: "distance_km (rank flat_km shelf origin0 50 None ! 2)
             = distance_km (rank flat_km shelf origin0 50 None ! 3)"
    "price (medicine (rank flat_km shelf origin0 50 None ! 2))
             = price (medicine (rank flat_km shelf origin0 50 None ! 3))"
    by (simp_all add: rank_example hit_def med_def)
  have m: "map (\<lambda>r. (distance_km r, price (medicine r), store_name (store r)))
     (rank flat_km shelf origin0 50 None)
   = [(1, 90, ''Near''), (2, 25, ''City''), (2, 30, ''Apollo''), (2, 30, ''MedPlus'')]"
    by (simp add: rank_example hit_def med_def shop_def)
  from rank_sorted [of 2 3 flat_km shelf origin0 50 None] l e m show ?thesis by simp
qed



section \<open>Properties of the highlighted-name extraction\<close>

lemma match_bold_iff:
  "match_bold s = Some (w, m, rest) \<longleftrightarrow>
     m \<noteq> [] \<and> star \<notin> set m \<and> s = [star, star] @ m @ [star, star] @ rest
     \<and> w = [star, star] @ m @ [star, star]"
proof
  assume a: "match_bold s = Some (w, m, rest)"
  then obtain t where s: "s = star # star # t"
    by (auto simp: match_bold_def split: list.splits if_splits)
  from a s have m: "m = takeWhile (\<lambda>c. c \<noteq> star) t" and ne: "m \<noteq> []"
    and d: "dropWhile (\<lambda>c. c \<noteq> star) t = star # star # rest"
    and w: "w = [star, star] @ m @ [star, star]"
    by (auto simp: match_bold_def Let_def split: list.splits if_splits)
  have "t = takeWhile (\<lambda>c. c \<noteq> star) t @ dropWhile (\<lambda>c. c \<noteq> star) t" by simp
  then have t: "t = m @ star # star # rest" using m d by simp
  have "star \<notin> set m" unfolding m by (auto dest: set_takeWhileD)
  then show "m \<noteq> [] \<and> star \<notin> set m \<and> s = [star, star] @ m @ [star, star] @ rest
     \<and> w = [star, star] @ m @ [star, star]"
    using ne s t w by simp
next
  assume a: "m \<noteq> [] \<and> star \<notin> set m \<and> s = [star, star] @ m @ [star, star] @ rest
     \<and> w = [star, star] @ m @ [star, star]"
  then have nm: "\<forall>c \<in> set m. c \<noteq> star" by auto
  have tk: "takeWhile (\<lambda>c. c \<noteq> star) (m @ star # star # rest) = m"
    using nm by (simp add: takeWhile_append2)
  have dr: "dropWhile (\<lambda>c. c \<noteq> star) (m @ star # star # rest) = star # star # rest"
    using nm by (simp add: dropWhile_append2)
  show "match_bold s = Some (w, m, rest)"
    using a tk dr by (simp add: match_bold_def)
qed

lemma matchAll_skip: "star \<notin> set g \<Longrightarrow> matchAll (g @ s) = matchAll s"
proof (induction g)
  case Nil
  then show ?case by simp
next
  case (Cons c g)
  then have "match_bold (c # (g @ s)) = None"
    by (auto simp: match_bold_def split: list.splits)
  with Cons show ?case by simp
qed

lemma matchAll_segment:
  assumes "star \<notin> set g" "m \<noteq> []" "star \<notin> set m"
  shows "matchAll (g @ [star, star] @ m @ [star, star] @ rest)
           = ([star, star] @ m @ [star, star], m) # matchAll rest"
proof -
  have "match_bold ([star, star] @ m @ [star, star] @ rest)
          = Some ([star, star] @ m @ [star, star], m, rest)"
    using assms by (simp only: match_bold_iff) simp
  then have "matchAll ([star, star] @ m @ [star, star] @ rest)
          = ([star, star] @ m @ [star, star], m) # matchAll rest"
    by simp
  with matchAll_skip [OF assms(1)] show ?thesis by simp
qed

lemma buttons_take: "quick_search_buttons (message_medicines s) = take 3 (extractMedicineName s)"
  by (simp add: quick_search_buttons_def message_medicines_def Let_def)

lemma begins_marked_iff:
  "begins_marked s \<longleftrightarrow>
     (\<exists>m rest. m \<noteq> [] \<and> star \<notin> set m \<and> s = [star, star] @ m @ [star, star] @ rest)"
proof
  assume "begins_marked s"
  then obtain m where m: "m \<noteq> []" "star \<notin> set m"
    and p: "prefix ([star, star] @ m @ [star, star]) s"
    unfolding begins_marked_def by blast
  from p obtain rest where "s = ([star, star] @ m @ [star, star]) @ rest"
    unfolding prefix_def by blast
  with m show "\<exists>m rest. m \<noteq> [] \<and> star \<notin> set m \<and> s = [star, star] @ m @ [star, star] @ rest"
    by auto
next
  assume "\<exists>m rest. m \<noteq> [] \<and> star \<notin> set m \<and> s = [star, star] @ m @ [star, star] @ rest"
  then obtain m rest where m: "m \<noteq> []" "star \<notin> set m"
    and s: "s = [star, star] @ m @ [star, star] @ rest" by blast
  from s have "drop 2 s = m @ [star, star] @ rest" by simp
  then have a: "m \<in> set (prefixes (drop 2 s))" by simp
  from s have "s = ([star, star] @ m @ [star, star]) @ rest" by simp
  then have b: "prefix ([star, star] @ m @ [star, star]) s" unfolding prefix_def by blast
  from m a b show "begins_marked s" unfolding begins_marked_def by blast
qed

lemma match_bold_None: "match_bold s = None \<longleftrightarrow> \<not> begins_marked s"
proof
  assume n: "match_bold s = None"
  show "\<not> begins_marked s"
  proof
    assume "begins_marked s"
    then obtain m rest where "m \<noteq> [] \<and> star \<notin> set m \<and> s = [star, star] @ m @ [star, star] @ rest
        \<and> [star, star] @ m @ [star, star] = [star, star] @ m @ [star, star]"
      unfolding begins_marked_iff by blast
    then have "match_bold s = Some ([star, star] @ m @ [star, star], m, rest)"
      by (rule match_bold_iff [THEN iffD2])
    with n show False by simp
  qed
next
  assume nb: "\<not> begins_marked s"
  show "match_bold s = None"
  proof (cases "match_bold s")
    case None
    then show ?thesis .
  next
    case (Some r)
    obtain w m rest where "r = (w, m, rest)" by (cases r)
    with Some have "match_bold s = Some (w, m, rest)" by simp
    then have "m \<noteq> [] \<and> star \<notin> set m \<and> s = [star, star] @ m @ [star, star] @ rest
        \<and> w = [star, star] @ m @ [star, star]"
      by (rule match_bold_iff [THEN iffD1])
    then have "begins_marked s" unfolding begins_marked_iff by blast
    with nb show ?thesis by simp
  qed
qed

lemma matchAll_clear_gap:
  "(\<forall>b. suffix b g \<and> b \<noteq> [] \<longrightarrow> \<not> begins_marked (b @ k)) \<Longrightarrow> matchAll (g @ k) = matchAll k"
proof (induction g)
  case Nil
  then show ?case by simp
next
  case (Cons c g)
  have "suffix (c # g) (c # g)" by simp
  with Cons.prems have "\<not> begins_marked ((c # g) @ k)" by blast
  then have n: "match_bold (c # (g @ k)) = None" by (simp add: match_bold_None)
  have "\<forall>b. suffix b g \<and> b \<noteq> [] \<longrightarrow> \<not> begins_marked (b @ k)"
    using Cons.prems by (simp add: suffix_Cons)
  then have "matchAll (g @ k) = matchAll k" by (rule Cons.IH)
  with n show ?case by simp
qed

lemma matchAll_clear_tail:
  "(\<forall>b. suffix b t \<longrightarrow> \<not> begins_marked b) \<Longrightarrow> matchAll t = []"
proof (induction t)
  case Nil
  then show ?case by simp
next
  case (Cons c t)
  have "suffix (c # t) (c # t)" by simp
  with Cons.prems have "\<not> begins_marked (c # t)" by blast
  then have n: "match_bold (c # t) = None" by (simp add: match_bold_None)
  have "\<forall>b. suffix b t \<longrightarrow> \<not> begins_marked b"
    using Cons.prems by (simp add: suffix_Cons)
  then have "matchAll t = []" by (rule Cons.IH)
  with n show ?case by simp
qed

lemma leftmost_extract:
  "leftmost xs tail \<Longrightarrow> extractMedicineName (marked xs tail) = map snd xs"
proof (induction xs)
  case Nil
  then have "matchAll tail = []" by (intro matchAll_clear_tail) simp
  then show ?case by (simp add: extractMedicineName_def)
next
  case (Cons x xs)
  obtain g m where x: "x = (g, m)" by (cases x)
  from Cons.prems x have h: "m \<noteq> []" "star \<notin> set m" and l: "leftmost xs tail"
    and c: "\<forall>b. suffix b g \<and> b \<noteq> [] \<longrightarrow>
              \<not> begins_marked (b @ [star, star] @ m @ [star, star] @ marked xs tail)"
    by simp_all
  from c have "matchAll (g @ [star, star] @ m @ [star, star] @ marked xs tail)
      = matchAll ([star, star] @ m @ [star, star] @ marked xs tail)"
    by (rule matchAll_clear_gap)
  also have "\<dots> = ([star, star] @ m @ [star, star], m) # matchAll (marked xs tail)"
    using matchAll_segment [of "[]" m "marked xs tail"] h by simp
  finally have "extractMedicineName (marked (x # xs) tail)
      = m # extractMedicineName (marked xs tail)"
    using x by (simp add: extractMedicineName_def)
  with Cons.IH [OF l] x show ?case by simp
qed

lemma leftmost_decompose:
  "\<exists>gaps tail. length gaps = length (extractMedicineName s)
      \<and> s = marked (zip gaps (extractMedicineName s)) tail
      \<and> leftmost (zip gaps (extractMedicineName s)) tail"
proof (induction s rule: matchAll.induct)
  case 1
  have "\<not> begins_marked []" by (simp add: match_bold_None [symmetric] match_bold_def)
  then have "length ([]::jsstring list) = length (extractMedicineName [])
      \<and> [] = marked (zip [] (extractMedicineName [])) []
      \<and> leftmost (zip [] (extractMedicineName [])) []"
    by (simp add: extractMedicineName_def)
  then show ?case by blast
next
  case (2 c cs)
  show ?case
  proof (cases "match_bold (c # cs)")
    case None
    then have nb: "\<not> begins_marked (c # cs)" by (simp add: match_bold_None)
    from None 2 obtain gaps tail where g: "length gaps = length (extractMedicineName cs)"
      and t: "cs = marked (zip gaps (extractMedicineName cs)) tail"
      and l: "leftmost (zip gaps (extractMedicineName cs)) tail" by blast
    from None have e: "extractMedicineName (c # cs) = extractMedicineName cs"
      by (simp add: extractMedicineName_def)
    show ?thesis
    proof (cases gaps)
      case Nil
      with g t have ct: "cs = tail" and en: "extractMedicineName cs = []" by auto
      from l Nil ct nb have "leftmost [] (c # tail)" by (simp add: suffix_Cons)
      then have "length ([]::jsstring list) = length (extractMedicineName (c # cs))
        \<and> c # cs = marked (zip [] (extractMedicineName (c # cs))) (c # tail)
        \<and> leftmost (zip [] (extractMedicineName (c # cs))) (c # tail)"
        using e en ct by simp
      then show ?thesis by blast
    next
      case (Cons g0 gs)
      with g obtain m ms where ms: "extractMedicineName cs = m # ms"
        by (cases "extractMedicineName cs") auto
      from t Cons ms have cs: "cs = g0 @ [star, star] @ m @ [star, star] @ marked (zip gs ms) tail"
        by simp
      from l Cons ms have l': "leftmost ((g0, m) # zip gs ms) tail" by simp
      have "leftmost ((c # g0, m) # zip gs ms) tail"
        using l' nb cs by (simp add: suffix_Cons)
      then have "length ((c # g0) # gs) = length (extractMedicineName (c # cs))
        \<and> c # cs = marked (zip ((c # g0) # gs) (extractMedicineName (c # cs))) tail
        \<and> leftmost (zip ((c # g0) # gs) (extractMedicineName (c # cs))) tail"
        using e g t Cons ms by simp
      then show ?thesis by blast
    qed
  next
    case (Some r)
    obtain w m rest where r: "r = (w, m, rest)" by (cases r)
    with Some have mb: "match_bold (c # cs) = Some (w, m, rest)" by simp
    with 2 obtain gaps tail where g: "length gaps = length (extractMedicineName rest)"
      and t: "rest = marked (zip gaps (extractMedicineName rest)) tail"
      and l: "leftmost (zip gaps (extractMedicineName rest)) tail" by blast
    from mb have e: "extractMedicineName (c # cs) = m # extractMedicineName rest"
      by (simp add: extractMedicineName_def)
    from mb have s: "m \<noteq> [] \<and> star \<notin> set m \<and> c # cs = [star, star] @ m @ [star, star] @ rest"
      by (simp only: match_bold_iff) simp
    have "leftmost (([], m) # zip gaps (extractMedicineName rest)) tail"
      using l s by simp
    then have "length ([] # gaps) = length (extractMedicineName (c # cs))
        \<and> c # cs = marked (zip ([] # gaps) (extractMedicineName (c # cs))) tail
        \<and> leftmost (zip ([] # gaps) (extractMedicineName (c # cs))) tail"
      using e g t s by simp
    then show ?thesis by blast
  qed
qed

lemma chat_marked: "chat = marked (zip chat_gaps chat_names) (js ''.'')"
  by (simp add: chat_def chat_gaps_def chat_names_def js_def star_def)

lemma chat_leftmost: "leftmost (zip chat_gaps chat_names) (js ''.'')"
  by (simp add: chat_gaps_def chat_names_def js_def star_def
      match_bold_None [symmetric] match_bold_def del: in_set_suffixes)

text \<open>
  C9. For any text, \<open>extractMedicineName\<close> returns exactly the names of the leftmost
  reading of the text as gaps and names set between pairs of stars: the names in the
  order in which they appear, repetitions kept, each the first to begin after the one
  before it ends. The message bubble shows the first three of them.
\<close>

theorem extractMedicineName_leftmost:
  "(extractMedicineName s = names) =
     (\<exists>gaps tail. length gaps = length names
         \<and> s = marked (zip gaps names) tail
         \<and> leftmost (zip gaps names) tail)
   \<and> quick_search_buttons (message_medicines s) = take 3 (extractMedicineName s)"
proof -
  have "(extractMedicineName s = names) =
     (\<exists>gaps tail. length gaps = length names
         \<and> s = marked (zip gaps names) tail
         \<and> leftmost (zip gaps names) tail)"
  proof
    assume "extractMedicineName s = names"
    with leftmost_decompose [of s]
    show "\<exists>gaps tail. length gaps = length names
         \<and> s = marked (zip gaps names) tail
         \<and> leftmost (zip gaps names) tail" by simp
  next
    assume "\<exists>gaps tail. length gaps = length names
         \<and> s = marked (zip gaps names) tail
         \<and> leftmost (zip gaps names) tail"
    then obtain gaps tail where g: "length gaps = length names"
      and s: "s = marked (zip gaps names) tail"
      and l: "leftmost (zip gaps names) tail" by blast
    from leftmost_extract [OF l] s have "extractMedicineName s = map snd (zip gaps names)"
      by simp
    with g show "extractMedicineName s = names" by simp
  qed
  with buttons_take [of s] show ?thesis by simp
qed

theorem extractMedicineName_leftmost_witness:
  "extractMedicineName chat = [js ''Dolo'', js ''Advil'', js ''Dolo'', js ''Zyx'']
   \<and> quick_search_buttons (message_medicines chat) = [js ''Dolo'', js ''Advil'', js ''Dolo'']"
proof -
  have "\<exists>gaps tail. length gaps = length chat_names
         \<and> chat = marked (zip gaps chat_names) tail
         \<and> leftmost (zip gaps chat_names) tail"
    using chat_marked chat_leftmost by (intro exI [of _ chat_gaps] exI [of _ "js ''.''"])
      (simp add: chat_gaps_def chat_names_def)
  with extractMedicineName_leftmost [of chat chat_names]
  have e: "extractMedicineName chat = chat_names"
    and b: "quick_search_buttons (message_medicines chat) = take 3 (extractMedicineName chat)"
    by blast+
  show ?thesis using e b by (simp add: chat_names_def)
qed

section \<open>Properties of removing a favorite\<close>

text \<open>
  Within one render, where the list the handler holds is the state of the page: a
  successful delete removes the entries with the given id and keeps the others in their
  order, and a failed delete leaves the list as it was.
\<close>

lemma removeFavorite_same_render:
  "(delete favoriteId = Inr None \<longrightarrow>
      fst (removeFavorite delete favoriteId favorites favorites)
        = filter (\<lambda>f. fav_id f \<noteq> favoriteId) favorites)
   \<and> (delete favoriteId = Inl thrown \<longrightarrow>
        fst (removeFavorite delete favoriteId favorites current) = current)
   \<and> (delete favoriteId = Inr (Some error) \<and> error \<noteq> [] \<longrightarrow>
        fst (removeFavorite delete favoriteId favorites current) = current)"
  by (simp add: removeFavorite_def remove_failed_def remove_done_def)

text \<open>
  C10. The claim fails of the handler when two removals overlap: with the stores
  \<open>f1\<close>, \<open>f2\<close>, \<open>f3\<close> shown, removing \<open>f1\<close> and then \<open>f2\<close> before the first
  delete has settled, both deletes succeeding, ends with \<open>f1\<close> and \<open>f3\<close>. The second
  handler filters the list of its render, so the entry \<open>f1\<close>, already gone from the
  page, is put back, where removing \<open>f2\<close> from the list \<open>f2\<close>, \<open>f3\<close> leaves \<open>f3\<close>.
\<close>

theorem removeFavorite_overlap_restores:
  "fst (removeFavorite (\<lambda>i. Inr None) ''f1'' saved saved) = [fav ''f2'', fav ''f3'']
   \<and> fst (removeFavorite (\<lambda>i. Inr None) ''f2'' saved [fav ''f2'', fav ''f3''])
       = [fav ''f1'', fav ''f3'']
   \<and> remove_two (\<lambda>i. Inr None) ''f1'' ''f2'' saved = [fav ''f1'', fav ''f3'']
   \<and> remove_two (\<lambda>i. Inr None) ''f1'' ''f2'' saved \<noteq> [fav ''f3'']"
  by (simp add: remove_two_def removeFavorite_def remove_done_def saved_def fav_def)

end
